theory Spec2Isabelle
  imports Main "HOL-Library.Sublist" "HOL-Library.Word"
begin

section \<open>Python values\<close>

text \<open>
  The values that \<open>json.loads\<close> produces and that \<open>server.py\<close> builds itself:
  \<open>None\<close>, booleans, unbounded integers, floats (kept as their IEEE-754 bit pattern),
  strings, lists and dictionaries. A dictionary is an association list in insertion
  order; a key is looked up with \<open>map_of\<close>. Strings are lists of one-byte characters:
  the model covers texts whose characters are single code units (ASCII).
\<close>

datatype pyval =
    PNone
  | PBool bool
  | PInt int
  | PFloat "64 word"
  | PStr string
  | PList "pyval list"
  | PDict "(string \<times> pyval) list"

type_synonym pydict = "(string \<times> pyval) list"

text \<open>Python's \<open>bool(x)\<close>: zero, empty and \<open>None\<close> are false. A float is zero when
  all bits but the sign bit are clear.\<close>

fun py_bool :: "pyval \<Rightarrow> bool" where
  "py_bool PNone = False"
| "py_bool (PBool b) = b"
| "py_bool (PInt i) = (i \<noteq> 0)"
| "py_bool (PFloat w) = (take_bit 63 w \<noteq> 0)"
| "py_bool (PStr s) = (s \<noteq> [])"
| "py_bool (PList xs) = (xs \<noteq> [])"
| "py_bool (PDict d) = (d \<noteq> [])"

text \<open>\<open>d.get(key, default)\<close>\<close>

definition dict_get :: "pydict \<Rightarrow> string \<Rightarrow> pyval \<Rightarrow> pyval" where
  "dict_get d k dflt = (case map_of d k of None \<Rightarrow> dflt | Some v \<Rightarrow> v)"

text \<open>\<open>d[key] = value\<close> on a dictionary: an existing key keeps its place.\<close>

fun dict_set :: "pydict \<Rightarrow> string \<Rightarrow> pyval \<Rightarrow> pydict" where
  "dict_set [] k v = [(k, v)]"
| "dict_set ((k', v') # d) k v =
     (if k' = k then (k, v) # d else (k', v') # dict_set d k v)"

text \<open>\<open>isinstance(x, list)\<close>\<close>

fun is_list :: "pyval \<Rightarrow> bool" where
  "is_list (PList xs) = True"
| "is_list v = False"

section \<open>Strings\<close>

text \<open>\<open>str.lower()\<close> on ASCII text: the 26 capital letters are mapped, every other
  character is kept.\<close>

definition lower_table :: "(char \<times> char) list" where
  "lower_table = zip ''ABCDEFGHIJKLMNOPQRSTUVWXYZ'' ''abcdefghijklmnopqrstuvwxyz''"

definition lower_char :: "char \<Rightarrow> char" where
  "lower_char c = (case map_of lower_table c of None \<Rightarrow> c | Some l \<Rightarrow> l)"

definition lower :: "string \<Rightarrow> string" where
  "lower s = map lower_char s"

text \<open>\<open>keyword in text\<close>: the keyword occurs as a contiguous substring.\<close>

fun is_prefix :: "string \<Rightarrow> string \<Rightarrow> bool" where
  "is_prefix [] s = True"
| "is_prefix (k # ks) [] = False"
| "is_prefix (k # ks) (c # cs) = (k = c \<and> is_prefix ks cs)"

fun str_in :: "string \<Rightarrow> string \<Rightarrow> bool" where
  "str_in k [] = (k = [])"
| "str_in k (c # cs) = (is_prefix k (c # cs) \<or> str_in k cs)"

section \<open>The fallback result (\<open>create_fallback_result\<close>)\<close>

definition found_keywords :: "string list" where
  "found_keywords = [''yes'', ''found'', ''present'', ''visible'', ''see'', ''true'']"

definition not_found_keywords :: "string list" where
  "not_found_keywords = [''no'', ''not found'', ''absent'', ''cannot'', ''false'']"

text \<open>The two \<open>for\<close> loops: each walks its keyword list in order, stops at the first
  keyword that occurs in the text and then overwrites \<open>found\<close>; a list without a hit
  leaves \<open>found\<close> as it was.\<close>

fun scan_found :: "string list \<Rightarrow> string \<Rightarrow> bool \<Rightarrow> bool" where
  "scan_found [] text_lower found = found"
| "scan_found (keyword # rest) text_lower found =
     (if str_in keyword text_lower then True else scan_found rest text_lower found)"

fun scan_not_found :: "string list \<Rightarrow> string \<Rightarrow> bool \<Rightarrow> bool" where
  "scan_not_found [] text_lower found = found"
| "scan_not_found (keyword # rest) text_lower found =
     (if str_in keyword text_lower then False else scan_not_found rest text_lower found)"

definition fallback_found :: "string \<Rightarrow> bool" where
  "fallback_found text =
     (let text_lower = lower text;
          found = False;
          found = scan_found found_keywords text_lower found;
          found = scan_not_found not_found_keywords text_lower found
      in found)"

definition create_fallback_result :: "string \<Rightarrow> pyval \<Rightarrow> pydict" where
  "create_fallback_result text object_name =
     (let found = fallback_found text in
      [(''found'', PBool found),
       (''confidence'', PStr ''medium''),
       (''description'', PStr (take 500 text)),
       (''location'', PStr (if found then ''See description'' else ''Not applicable'')),
       (''additional_objects'', PList [])])"

section \<open>Validation (\<open>validate_result\<close>)\<close>

definition valid_confidences :: "pyval list" where
  "valid_confidences = [PStr ''high'', PStr ''medium'', PStr ''low'']"

definition validate_result :: "pydict \<Rightarrow> pydict" where
  "validate_result result =
     (let validated =
            [(''found'', PBool (py_bool (dict_get result ''found'' (PBool False)))),
             (''confidence'', dict_get result ''confidence'' (PStr ''medium'')),
             (''description'', dict_get result ''description'' (PStr ''No description available'')),
             (''location'', dict_get result ''location'' (PStr ''Unknown'')),
             (''additional_objects'', dict_get result ''additional_objects'' (PList []))];
          validated =
            (if dict_get validated ''confidence'' PNone \<notin> set valid_confidences
             then dict_set validated ''confidence'' (PStr ''medium'') else validated);
          validated =
            (if \<not> is_list (dict_get validated ''additional_objects'' PNone)
             then dict_set validated ''additional_objects'' (PList []) else validated)
      in validated)"

section \<open>Locating the JSON span (\<open>re.search(r'\{[\s\S]*\}', result_text)\<close>)\<close>

text \<open>
  The pattern is an opening brace, then any characters at all (a greedy star), then a
  closing brace. \<open>match_rest\<close> matches the star and the closing brace at the head of
  its argument: the star first takes the next character and goes on, and only where
  that fails does it stop, and the character at hand must then be the closing brace.
  \<open>re_search\<close> tries the start positions from left to right and returns the text of
  the first match (\<open>json_match.group(0)\<close>), or \<open>None\<close>.
\<close>

fun match_rest :: "string \<Rightarrow> string option" where
  "match_rest [] = None"
| "match_rest (c # cs) =
     (case match_rest cs of
        Some m \<Rightarrow> Some (c # m)
      | None \<Rightarrow> if c = CHR ''}'' then Some [c] else None)"

fun re_search :: "string \<Rightarrow> string option" where
  "re_search [] = None"
| "re_search (c # cs) =
     (if c = CHR ''{'' then
        (case match_rest cs of
           Some m \<Rightarrow> Some (c # m)
         | None \<Rightarrow> re_search cs)
      else re_search cs)"

text \<open>
  Following the specification's words, for comparison with \<open>re_search\<close>: the
  balanced-brace span begins at the first opening brace and ends at its matching
  closing brace. \<open>scan_depth d\<close> runs behind the first opening brace with \<open>d\<close> further
  braces open.
\<close>

fun scan_depth :: "nat \<Rightarrow> string \<Rightarrow> string option" where
  "scan_depth d [] = None"
| "scan_depth d (c # cs) =
     (if c = CHR ''{'' then map_option ((#) c) (scan_depth (Suc d) cs)
      else if c = CHR ''}'' then
        (case d of 0 \<Rightarrow> Some [c] | Suc d' \<Rightarrow> map_option ((#) c) (scan_depth d' cs))
      else map_option ((#) c) (scan_depth d cs))"

definition spec_balanced_span :: "string \<Rightarrow> string option" where
  "spec_balanced_span text =
     (case dropWhile (\<lambda>c. c \<noteq> CHR ''{'') text of
        [] \<Rightarrow> None
      | c # cs \<Rightarrow> map_option ((#) c) (scan_depth 0 cs))"

section \<open>Exceptions and the external libraries\<close>

text \<open>The exception classes the endpoint tells apart, and \<open>Other\<close> with the class name
  for everything else an external call may raise.\<close>

datatype py_exception =
    JSONDecodeError
  | TypeError
  | AttributeError
  | IndexError
  | Other string

text \<open>
  The calls into libraries and into the model service, each returning its value or the
  exception it raises: \<open>base64.b64decode\<close>, \<open>Image.open(io.BytesIO(...))\<close>,
  \<open>json.loads\<close>, and \<open>generate_text\<close> for lines 85 to 103 (the prompt template filled
  with the object name, \<open>model.generate_content([prompt, image])\<close> and
  \<open>response.text\<close>).
\<close>

record 'img externals =
  b64decode :: "string \<Rightarrow> py_exception + 8 word list"
  image_open :: "8 word list \<Rightarrow> py_exception + 'img"
  generate_text :: "pyval \<Rightarrow> 'img \<Rightarrow> py_exception + string"
  json_loads :: "string \<Rightarrow> py_exception + pyval"

section \<open>Parsing the reply (lines 105 to 116)\<close>

definition parse_reply ::
  "(string \<Rightarrow> py_exception + pyval) \<Rightarrow> string \<Rightarrow> pyval \<Rightarrow> py_exception + pyval" where
  "parse_reply loads result_text object_name =
     (case re_search result_text of
        Some span \<Rightarrow>
          (case loads span of
             Inr result \<Rightarrow> Inr result
           | Inl JSONDecodeError \<Rightarrow> Inr (PDict (create_fallback_result result_text object_name))
           | Inl e \<Rightarrow> Inl e)
      | None \<Rightarrow> Inr (PDict (create_fallback_result result_text object_name)))"

text \<open>Line 119: \<open>validate_result(result)\<close> calls \<open>result.get\<close>, which only a dictionary
  has.\<close>

definition validate_value :: "pyval \<Rightarrow> py_exception + pydict" where
  "validate_value result =
     (case result of PDict d \<Rightarrow> Inr (validate_result d) | _ \<Rightarrow> Inl AttributeError)"

section \<open>Decoding the image (lines 62 to 73)\<close>

text \<open>\<open>',' in image_data\<close>: a substring test on a string, a membership test on a list,
  a key test on a dictionary, and a \<open>TypeError\<close> on anything else.\<close>

fun comma_in :: "pyval \<Rightarrow> py_exception + bool" where
  "comma_in (PStr s) = Inr (str_in '','' s)"
| "comma_in (PList xs) = Inr (PStr '','' \<in> set xs)"
| "comma_in (PDict d) = Inr ('','' \<in> set (map fst d))"
| "comma_in v = Inl TypeError"

text \<open>\<open>s.split(',')\<close>\<close>

fun split_comma :: "string \<Rightarrow> string list" where
  "split_comma [] = [[]]"
| "split_comma (c # cs) =
     (if c = CHR '','' then [] # split_comma cs
      else (case split_comma cs of
              [] \<Rightarrow> [[c]]
            | w # ws \<Rightarrow> (c # w) # ws))"

fun py_split :: "pyval \<Rightarrow> py_exception + string list" where
  "py_split (PStr s) = Inr (split_comma s)"
| "py_split v = Inl AttributeError"

text \<open>\<open>xs[i]\<close> for a non-negative index\<close>

definition py_index :: "'a list \<Rightarrow> nat \<Rightarrow> py_exception + 'a" where
  "py_index xs i = (if i < length xs then Inr (xs ! i) else Inl IndexError)"

definition strip_data_url :: "pyval \<Rightarrow> py_exception + pyval" where
  "strip_data_url image_data =
     (case comma_in image_data of
        Inl e \<Rightarrow> Inl e
      | Inr True \<Rightarrow>
          (case py_split image_data of
             Inl e \<Rightarrow> Inl e
           | Inr parts \<Rightarrow>
               (case py_index parts 1 of
                  Inl e \<Rightarrow> Inl e
                | Inr part \<Rightarrow> Inr (PStr part)))
      | Inr False \<Rightarrow> Inr image_data)"

text \<open>\<open>base64.b64decode\<close> takes a string (or bytes, which JSON never yields) and
  raises \<open>TypeError\<close> on any other value.\<close>

definition decode_b64 :: "'img externals \<Rightarrow> pyval \<Rightarrow> py_exception + 8 word list" where
  "decode_b64 ext image_data =
     (case image_data of PStr s \<Rightarrow> b64decode ext s | _ \<Rightarrow> Inl TypeError)"

text \<open>Following the specification's words, for comparison with \<open>strip_data_url\<close>: the
  text behind the first comma, whole.\<close>

definition spec_remainder :: "string \<Rightarrow> string" where
  "spec_remainder s = drop 1 (dropWhile (\<lambda>c. c \<noteq> CHR '','') s)"

section \<open>The endpoint (\<open>analyze_image\<close>)\<close>

text \<open>
  The three shapes of reply: \<open>Ok200 result\<close> is
  \<open>jsonify({'success': True, 'result': result})\<close>; \<open>Error400 msg\<close> is
  \<open>jsonify({'error': msg, 'success': False}), 400\<close>; \<open>Error500 e\<close> is
  \<open>jsonify({'error': 'Server error: ' + str(e), 'success': False}), 500\<close>.
\<close>

datatype response =
    Ok200 pydict
  | Error400 string
  | Error500 py_exception

fun status :: "response \<Rightarrow> nat" where
  "status (Ok200 result) = 200"
| "status (Error400 msg) = 400"
| "status (Error500 e) = 500"

fun success :: "response \<Rightarrow> bool" where
  "success (Ok200 result) = True"
| "success (Error400 msg) = False"
| "success (Error500 e) = False"

text \<open>\<open>data.get(key)\<close> on the request body: only a dictionary has \<open>get\<close>.\<close>

definition py_get :: "pyval \<Rightarrow> string \<Rightarrow> py_exception + pyval" where
  "py_get data k =
     (case data of PDict d \<Rightarrow> Inr (dict_get d k PNone) | _ \<Rightarrow> Inl AttributeError)"

text \<open>Lines 101 to 124, from the decoded image on. Every exception here reaches the
  outer handler.\<close>

definition respond :: "'img externals \<Rightarrow> pyval \<Rightarrow> 'img \<Rightarrow> response" where
  "respond ext object_name img =
     (case generate_text ext object_name img of
        Inl e \<Rightarrow> Error500 e
      | Inr result_text \<Rightarrow>
          (case parse_reply (json_loads ext) result_text object_name of
             Inl e \<Rightarrow> Error500 e
           | Inr result \<Rightarrow>
               (case validate_value result of
                  Inl e \<Rightarrow> Error500 e
                | Inr validated \<Rightarrow> Ok200 validated)))"

text \<open>The whole handler. \<open>request_json\<close> is what \<open>request.json\<close> gives: the parsed
  body, or the exception the framework raises.\<close>

definition analyze_image :: "'img externals \<Rightarrow> py_exception + pyval \<Rightarrow> response" where
  "analyze_image ext request_json =
     (case request_json of
        Inl e \<Rightarrow> Error500 e
      | Inr data \<Rightarrow>
     (case py_get data ''image'' of
        Inl e \<Rightarrow> Error500 e
      | Inr image_data \<Rightarrow>
     (case py_get data ''object_name'' of
        Inl e \<Rightarrow> Error500 e
      | Inr object_name \<Rightarrow>
     if \<not> py_bool image_data \<or> \<not> py_bool object_name
     then Error400 ''Missing required fields: image and object_name''
     else
     (case strip_data_url image_data of
        Inl e \<Rightarrow> Error500 e
      | Inr image_data \<Rightarrow>
     (case decode_b64 ext image_data of
        Inl e \<Rightarrow> Error400 ''Invalid base64 image data''
      | Inr image_bytes \<Rightarrow>
     (case image_open ext image_bytes of
        Inl e \<Rightarrow> Error400 ''Invalid image format''
      | Inr img \<Rightarrow> respond ext object_name img))))))"

section \<open>Sample externals for the worked examples\<close>

text \<open>
  Stand-ins for the external calls, used only to run the handler on concrete requests.
  The decoder knows two payloads, the image loader accepts one byte string, the parser
  one document; everything else raises, as the libraries do on input they reject. On
  \<open>deep_reply\<close>, an object holding 100000 nested arrays, the parser raises
  \<open>RecursionError\<close>, as \<open>json.loads\<close> does beyond the interpreter's recursion limit. The
  model's reply depends on the object name, so that a reply in plain prose, a reply
  with braces that are not JSON, a reply nested too deeply and a reply with an embedded
  object all occur.
\<close>

definition sample_b64decode :: "string \<Rightarrow> py_exception + 8 word list" where
  "sample_b64decode s =
     (if s = ''AAAA'' then Inr [0, 0, 0]
      else if s = ''QUJD'' then Inr [65, 66, 67]
      else Inl (Other ''binascii.Error''))"

definition sample_image_open :: "8 word list \<Rightarrow> py_exception + unit" where
  "sample_image_open bs =
     (if bs = [0, 0, 0] then Inr () else Inl (Other ''UnidentifiedImageError''))"

definition deep_reply :: string where
  "deep_reply =
     ''{\"a\": '' @ replicate 100000 (CHR ''['') @ replicate 100000 (CHR '']'') @ ''}''"

definition sample_generate_text :: "pyval \<Rightarrow> unit \<Rightarrow> py_exception + string" where
  "sample_generate_text object_name img =
     (if object_name = PStr ''cat'' then Inr ''Yes, it is visible''
      else if object_name = PStr ''dog'' then Inr ''There is {no dog} here''
      else if object_name = PStr ''nest'' then Inr deep_reply
      else Inr ''I think {\"found\": true} holds.'')"

definition sample_loads :: "string \<Rightarrow> py_exception + pyval" where
  "sample_loads s =
     (if s = ''{\"found\": true}'' then Inr (PDict [(''found'', PBool True)])
      else if s = deep_reply then Inl (Other ''RecursionError'')
      else Inl JSONDecodeError)"

definition sample_externals :: "unit externals" where
  "sample_externals =
     \<lparr>b64decode = sample_b64decode, image_open = sample_image_open,
      generate_text = sample_generate_text, json_loads = sample_loads\<rparr>"

section \<open>Facts about strings and the keyword scans\<close>

lemma is_prefix_iff: "is_prefix k s = prefix k s"
  by (induction k s rule: is_prefix.induct) simp_all

lemma str_in_iff: "str_in k s = sublist k s"
  by (induction s) (simp_all add: is_prefix_iff sublist_Cons_right)

lemma str_in_single: "str_in [x] s = (x \<in> set s)"
  by (induction s) auto

lemma scan_found_iff:
  "scan_found ks t f = (f \<or> (\<exists>k \<in> set ks. str_in k t))"
  by (induction ks) auto

lemma scan_not_found_iff:
  "scan_not_found ks t f = (f \<and> (\<forall>k \<in> set ks. \<not> str_in k t))"
  by (induction ks) auto

lemma fallback_found_iff:
  "fallback_found text =
     ((\<exists>k \<in> set found_keywords. sublist k (lower text)) \<and>
      (\<forall>k \<in> set not_found_keywords. \<not> sublist k (lower text)))"
  by (simp add: fallback_found_def Let_def scan_found_iff scan_not_found_iff str_in_iff)

lemma fallback_get_found:
  "dict_get (create_fallback_result text object_name) ''found'' PNone =
     PBool (fallback_found text)"
  by (simp add: create_fallback_result_def Let_def dict_get_def)

lemmas fallback_eval =
  fallback_found_def Let_def lower_def lower_char_def lower_table_def
  found_keywords_def not_found_keywords_def

lemma found_yes_visible: "fallback_found ''Yes, it is visible''"
  by (simp add: fallback_eval)

lemma found_not_found: "\<not> fallback_found ''The object was not found''"
  by (simp add: fallback_eval)

section \<open>Facts about validation\<close>

lemma validate_shape:
  "\<exists>b c d l a. validate_result r =
     [(''found'', PBool b), (''confidence'', c), (''description'', d),
      (''location'', l), (''additional_objects'', PList a)] \<and> c \<in> set valid_confidences"
  apply (simp add: validate_result_def Let_def dict_get_def valid_confidences_def)
  apply (cases "map_of r ''additional_objects''")
   apply simp
  subgoal for v by (cases v) auto
  done

lemma validate_fixed:
  "c \<in> set valid_confidences \<Longrightarrow>
   validate_result [(''found'', PBool b), (''confidence'', c), (''description'', d),
      (''location'', l), (''additional_objects'', PList a)]
   = [(''found'', PBool b), (''confidence'', c), (''description'', d),
      (''location'', l), (''additional_objects'', PList a)]"
  by (auto simp add: validate_result_def Let_def dict_get_def valid_confidences_def)

lemma validate_keys:
  "map fst (validate_result r) =
     [''found'', ''confidence'', ''description'', ''location'', ''additional_objects'']"
  by (simp add: validate_result_def Let_def dict_get_def)

lemma validate_confidence:
  "dict_get (validate_result r) ''confidence'' PNone \<in>
     {PStr ''high'', PStr ''medium'', PStr ''low''}"
  by (simp add: validate_result_def Let_def dict_get_def valid_confidences_def)

section \<open>Facts about the span search\<close>

lemma match_rest_none: "CHR ''}'' \<notin> set s \<Longrightarrow> match_rest s = None"
  by (induction s) auto

lemma match_rest_last:
  "CHR ''}'' \<notin> set post \<Longrightarrow>
   match_rest (body @ CHR ''}'' # post) = Some (body @ [CHR ''}''])"
  by (induction body) (auto simp: match_rest_none)

lemma re_search_first_last:
  "CHR ''{'' \<notin> set pre \<Longrightarrow> CHR ''}'' \<notin> set post \<Longrightarrow>
   re_search (pre @ CHR ''{'' # body @ CHR ''}'' # post) = Some (CHR ''{'' # body @ [CHR ''}''])"
  by (induction pre) (auto simp: match_rest_last)




section \<open>Facts about the prefix strip\<close>

lemma split_comma_nonempty: "split_comma s \<noteq> []"
  by (induction s) (auto split: list.splits)

lemma split_comma_hd: "hd (split_comma s) = takeWhile (\<lambda>c. c \<noteq> CHR '','') s"
  by (induction s) (auto split: list.splits simp: split_comma_nonempty)

lemma split_comma_tl:
  "CHR '','' \<in> set s \<Longrightarrow>
   tl (split_comma s) = split_comma (drop 1 (dropWhile (\<lambda>c. c \<noteq> CHR '','') s))"
  by (induction s) (auto split: list.splits simp: split_comma_nonempty)

lemma split_comma_second:
  assumes "CHR '','' \<in> set s"
  shows "py_index (split_comma s) (Suc 0) =
           Inr (takeWhile (\<lambda>c. c \<noteq> CHR '','') (spec_remainder s))"
proof -
  let ?r = "spec_remainder s"
  have "split_comma s = hd (split_comma s) # tl (split_comma s)"
    using split_comma_nonempty by simp
  moreover have "tl (split_comma s) = split_comma ?r"
    using assms by (simp add: split_comma_tl spec_remainder_def)
  moreover have "split_comma ?r = hd (split_comma ?r) # tl (split_comma ?r)"
    using split_comma_nonempty by simp
  ultimately obtain a rest where "split_comma s = a # hd (split_comma ?r) # rest"
    by metis
  then show ?thesis by (simp add: py_index_def split_comma_hd)
qed

lemma strip_data_url_str:
  "strip_data_url (PStr s) =
     Inr (PStr (if CHR '','' \<in> set s
                then takeWhile (\<lambda>c. c \<noteq> CHR '','') (spec_remainder s) else s))"
  by (simp add: strip_data_url_def str_in_single split_comma_second)

lemma takeWhile_no_comma:
  "CHR '','' \<notin> set r \<Longrightarrow> takeWhile (\<lambda>c. c \<noteq> CHR '','') r = r"
  by (induction r) auto

section \<open>Facts about the endpoint\<close>

lemma respond_ok:
  "respond ext object_name img = Ok200 r \<Longrightarrow> \<exists>d. r = validate_result d"
  by (auto simp: respond_def validate_value_def split: sum.splits pyval.splits)

lemma analyze_image_ok:
  "analyze_image ext rq = Ok200 r \<Longrightarrow> \<exists>d. r = validate_result d"
  by (auto simp: analyze_image_def split: sum.splits if_splits dest: respond_ok)

lemma analyze_image_steps:
  assumes "py_bool (dict_get d ''image'' PNone)" and "py_bool (dict_get d ''object_name'' PNone)"
    and "strip_data_url (dict_get d ''image'' PNone) = Inr payload"
  shows "analyze_image ext (Inr (PDict d)) =
     (case decode_b64 ext payload of
        Inl e \<Rightarrow> Error400 ''Invalid base64 image data''
      | Inr image_bytes \<Rightarrow>
          (case image_open ext image_bytes of
             Inl e \<Rightarrow> Error400 ''Invalid image format''
           | Inr img \<Rightarrow> respond ext (dict_get d ''object_name'' PNone) img))"
  using assms by (simp add: analyze_image_def py_get_def)

lemma analyze_image_missing:
  "\<not> py_bool (dict_get d ''image'' PNone) \<or> \<not> py_bool (dict_get d ''object_name'' PNone) \<Longrightarrow>
   analyze_image ext (Inr (PDict d)) =
     Error400 ''Missing required fields: image and object_name''"
  by (auto simp: analyze_image_def py_get_def)

lemmas sample_eval =
  sample_externals_def sample_b64decode_def sample_image_open_def
  sample_generate_text_def sample_loads_def deep_reply_def

text \<open>
  An image that is a string never leads to status 500 through the decoder: when the
  base64 decoder raises on the stripped string, or returns bytes on which the image
  loader raises, the answer is 400 with success false.
\<close>

lemma bad_image_gives_400:
  assumes "map_of d ''image'' = Some (PStr s)"
    and "strip_data_url (PStr s) = Inr (PStr payload)"
    and "(\<exists>e. b64decode ext payload = Inl e) \<or>
         (\<exists>bs e. b64decode ext payload = Inr bs \<and> image_open ext bs = Inl e)"
  shows "status (analyze_image ext (Inr (PDict d))) = 400 \<and>
         \<not> success (analyze_image ext (Inr (PDict d))) \<and>
         status (analyze_image ext (Inr (PDict d))) \<noteq> 500"
proof (cases "py_bool (dict_get d ''image'' PNone) \<and> py_bool (dict_get d ''object_name'' PNone)")
  case False
  then have "analyze_image ext (Inr (PDict d)) =
      Error400 ''Missing required fields: image and object_name''"
    using analyze_image_missing by blast
  then show ?thesis by simp
next
  case True
  have img: "dict_get d ''image'' PNone = PStr s"
    using assms(1) by (simp add: dict_get_def)
  have "analyze_image ext (Inr (PDict d)) =
     (case decode_b64 ext (PStr payload) of
        Inl e \<Rightarrow> Error400 ''Invalid base64 image data''
      | Inr image_bytes \<Rightarrow>
          (case image_open ext image_bytes of
             Inl e \<Rightarrow> Error400 ''Invalid image format''
           | Inr img \<Rightarrow> respond ext (dict_get d ''object_name'' PNone) img))"
    using True assms(2) img by (simp add: analyze_image_steps)
  with assms(3) show ?thesis
    by (auto simp: decode_b64_def)
qed

lemma bad_image_gives_400_example:
  "analyze_image sample_externals
     (Inr (PDict [(''image'', PStr ''data:image/png;base64,not base64''),
                  (''object_name'', PStr ''cat'')])) =
     Error400 ''Invalid base64 image data'' \<and>
   status (analyze_image sample_externals
     (Inr (PDict [(''image'', PStr ''data:image/png;base64,not base64''),
                  (''object_name'', PStr ''cat'')]))) = 400 \<and>
   analyze_image sample_externals
     (Inr (PDict [(''image'', PStr ''QUJD''), (''object_name'', PStr ''cat'')])) =
     Error400 ''Invalid image format'' \<and>
   status (analyze_image sample_externals
     (Inr (PDict [(''image'', PStr ''QUJD''), (''object_name'', PStr ''cat'')]))) = 400"
proof -
  let ?d1 = "[(''image'', PStr ''data:image/png;base64,not base64''),
              (''object_name'', PStr ''cat'')]"
  let ?d2 = "[(''image'', PStr ''QUJD''), (''object_name'', PStr ''cat'')]"
  have s1: "strip_data_url (PStr ''data:image/png;base64,not base64'') =
              Inr (PStr ''not base64'')"
    by (simp add: strip_data_url_def py_index_def)
  have f1: "b64decode sample_externals ''not base64'' = Inl (Other ''binascii.Error'')"
    by (simp add: sample_eval)
  have s2: "strip_data_url (PStr ''QUJD'') = Inr (PStr ''QUJD'')"
    by (simp add: strip_data_url_def)
  have f2: "b64decode sample_externals ''QUJD'' = Inr [65, 66, 67] \<and>
            image_open sample_externals [65, 66, 67] = Inl (Other ''UnidentifiedImageError'')"
    by (simp add: sample_eval)
  have r1: "status (analyze_image sample_externals (Inr (PDict ?d1))) = 400"
    using bad_image_gives_400
      [of ?d1 "''data:image/png;base64,not base64''" "''not base64''" sample_externals]
      s1 f1
    by simp
  have r2: "status (analyze_image sample_externals (Inr (PDict ?d2))) = 400"
    using bad_image_gives_400 [of ?d2 "''QUJD''" "''QUJD''" sample_externals] s2 f2
    by simp
  have e1: "analyze_image sample_externals (Inr (PDict ?d1)) =
              Error400 ''Invalid base64 image data''"
    using s1 f1 by (simp add: analyze_image_def py_get_def dict_get_def decode_b64_def)
  have e2: "analyze_image sample_externals (Inr (PDict ?d2)) =
              Error400 ''Invalid image format''"
    using s2 f2 by (simp add: analyze_image_def py_get_def dict_get_def decode_b64_def)
  from r1 r2 e1 e2 show ?thesis by simp
qed

section \<open>The claims about the fallback and about validation\<close>

text \<open>
  C2. Whatever mapping comes in, the validated result has exactly the five fields
  found, confidence, description, location and additional_objects, in this order, and
  its confidence is one of "high", "medium", "low"; and every result that the endpoint
  returns with status 200 is such a validated result.
\<close>

theorem validate_result_schema:
  "map fst (validate_result r) =
     [''found'', ''confidence'', ''description'', ''location'', ''additional_objects''] \<and>
   (\<forall>k \<in> set [''found'', ''confidence'', ''description'', ''location'',
               ''additional_objects'']. map_of (validate_result r) k \<noteq> None) \<and>
   dict_get (validate_result r) ''confidence'' PNone \<in>
     {PStr ''high'', PStr ''medium'', PStr ''low''} \<and>
   (analyze_image ext rq = Ok200 res \<longrightarrow>
      map fst res =
        [''found'', ''confidence'', ''description'', ''location'', ''additional_objects''] \<and>
      dict_get res ''confidence'' PNone \<in> {PStr ''high'', PStr ''medium'', PStr ''low''})"
proof -
  have keys: "map fst (validate_result r) =
     [''found'', ''confidence'', ''description'', ''location'', ''additional_objects'']"
    by (rule validate_keys)
  have "\<forall>k \<in> set (map fst (validate_result r)). map_of (validate_result r) k \<noteq> None"
    by (metis map_of_eq_None_iff set_map)
  with keys have present:
    "\<forall>k \<in> set [''found'', ''confidence'', ''description'', ''location'',
               ''additional_objects'']. map_of (validate_result r) k \<noteq> None"
    by simp
  have endpoint: "analyze_image ext rq = Ok200 res \<longrightarrow>
      map fst res =
        [''found'', ''confidence'', ''description'', ''location'', ''additional_objects''] \<and>
      dict_get res ''confidence'' PNone \<in> {PStr ''high'', PStr ''medium'', PStr ''low''}"
  proof
    assume "analyze_image ext rq = Ok200 res"
    then obtain d where "res = validate_result d"
      using analyze_image_ok by blast
    then show "map fst res =
        [''found'', ''confidence'', ''description'', ''location'', ''additional_objects''] \<and>
      dict_get res ''confidence'' PNone \<in> {PStr ''high'', PStr ''medium'', PStr ''low''}"
      using validate_keys validate_confidence by simp
  qed
  from keys present validate_confidence endpoint show ?thesis by blast
qed

theorem validate_result_schema_witness:
  "analyze_image sample_externals
     (Inr (PDict [(''image'', PStr ''AAAA''), (''object_name'', PStr ''cup'')])) =
     Ok200 [(''found'', PBool True), (''confidence'', PStr ''medium''),
            (''description'', PStr ''No description available''),
            (''location'', PStr ''Unknown''), (''additional_objects'', PList [])] \<and>
   dict_get [(''found'', PBool True), (''confidence'', PStr ''medium''),
            (''description'', PStr ''No description available''),
            (''location'', PStr ''Unknown''), (''additional_objects'', PList [])]
     ''confidence'' PNone \<in> {PStr ''high'', PStr ''medium'', PStr ''low''} \<and>
   map_of (validate_result [(''confidence'', PInt 7), (''found'', PStr ''garbage'')])
     ''location'' \<noteq> None"
proof -
  let ?r = "[(''confidence'', PInt 7), (''found'', PStr ''garbage'')]"
  let ?rq = "Inr (PDict [(''image'', PStr ''AAAA''), (''object_name'', PStr ''cup'')])"
  let ?res = "[(''found'', PBool True), (''confidence'', PStr ''medium''),
            (''description'', PStr ''No description available''),
            (''location'', PStr ''Unknown''), (''additional_objects'', PList [])]"
  have run: "analyze_image sample_externals ?rq = Ok200 ?res"
    by (simp add: analyze_image_def py_get_def dict_get_def strip_data_url_def decode_b64_def
        respond_def parse_reply_def validate_value_def validate_result_def
        valid_confidences_def sample_eval)
  have mem: "''location'' \<in> set [''found'', ''confidence'', ''description'', ''location'',
               ''additional_objects'']"
    by simp
  have "\<forall>k \<in> set [''found'', ''confidence'', ''description'', ''location'',
               ''additional_objects'']. map_of (validate_result ?r) k \<noteq> None"
    using validate_result_schema [of ?r] by blast
  then have loc: "map_of (validate_result ?r) ''location'' \<noteq> None"
    using mem by (rule bspec)
  from run validate_result_schema [of ?r sample_externals ?rq ?res]
  have "dict_get ?res ''confidence'' PNone \<in> {PStr ''high'', PStr ''medium'', PStr ''low''}"
    by blast
  with run loc show ?thesis by blast
qed

text \<open>
  C3. The fallback sets found to true exactly when the lowercased text contains one of
  the positive keywords and none of the negative keywords; so any negative keyword
  forces found to false, and in particular a text containing "not found" gives false.
\<close>

theorem fallback_found_keywords:
  "dict_get (create_fallback_result text object_name) ''found'' PNone =
     PBool ((\<exists>k \<in> set [''yes'', ''found'', ''present'', ''visible'', ''see'', ''true''].
               sublist k (lower text)) \<and>
            (\<forall>k \<in> set [''no'', ''not found'', ''absent'', ''cannot'', ''false''].
               \<not> sublist k (lower text))) \<and>
   ((\<exists>k \<in> set [''no'', ''not found'', ''absent'', ''cannot'', ''false''].
       sublist k (lower text)) \<longrightarrow>
    dict_get (create_fallback_result text object_name) ''found'' PNone = PBool False) \<and>
   (sublist ''not found'' (lower text) \<longrightarrow>
    dict_get (create_fallback_result text object_name) ''found'' PNone = PBool False)"
  unfolding fallback_get_found fallback_found_iff found_keywords_def not_found_keywords_def
  by auto

theorem fallback_found_keywords_witness:
  "sublist ''not found'' (lower ''The object was not found'') \<and>
   dict_get (create_fallback_result ''The object was not found'' (PStr ''cat''))
     ''found'' PNone = PBool False"
proof -
  have h: "sublist ''not found'' (lower ''The object was not found'')"
    by (simp add: str_in_iff [symmetric] lower_def lower_char_def lower_table_def)
  with fallback_found_keywords [of "''The object was not found''" "PStr ''cat''"]
  show ?thesis by blast
qed

text \<open>
  C4. The fallback result has confidence "medium"; its description is the first 500
  characters of the raw text (at most 500 long, a prefix of the text); its location is
  "See description" when found is true and "Not applicable" when found is false; its
  additional_objects is the empty list.
\<close>

theorem fallback_fields:
  "dict_get (create_fallback_result text object_name) ''confidence'' PNone = PStr ''medium'' \<and>
   dict_get (create_fallback_result text object_name) ''description'' PNone =
     PStr (take 500 text) \<and>
   length (take 500 text) \<le> 500 \<and> prefix (take 500 text) text \<and>
   (dict_get (create_fallback_result text object_name) ''found'' PNone = PBool True \<longrightarrow>
    dict_get (create_fallback_result text object_name) ''location'' PNone =
      PStr ''See description'') \<and>
   (dict_get (create_fallback_result text object_name) ''found'' PNone = PBool False \<longrightarrow>
    dict_get (create_fallback_result text object_name) ''location'' PNone =
      PStr ''Not applicable'') \<and>
   dict_get (create_fallback_result text object_name) ''additional_objects'' PNone = PList []"
  by (simp add: create_fallback_result_def Let_def dict_get_def take_is_prefix)

theorem fallback_fields_witness:
  "dict_get (create_fallback_result ''Yes, it is visible'' (PStr ''cat'')) ''found'' PNone =
     PBool True \<and>
   dict_get (create_fallback_result ''Yes, it is visible'' (PStr ''cat'')) ''location'' PNone =
     PStr ''See description'' \<and>
   dict_get (create_fallback_result ''The object was not found'' (PStr ''cat'')) ''found'' PNone =
     PBool False \<and>
   dict_get (create_fallback_result ''The object was not found'' (PStr ''cat'')) ''location''
     PNone = PStr ''Not applicable''"
proof -
  have a: "dict_get (create_fallback_result ''Yes, it is visible'' (PStr ''cat''))
     ''found'' PNone = PBool True"
    by (simp add: fallback_get_found found_yes_visible)
  have b: "dict_get (create_fallback_result ''The object was not found'' (PStr ''cat''))
     ''found'' PNone = PBool False"
    by (simp add: fallback_get_found found_not_found)
  from a b
    fallback_fields [of "''Yes, it is visible''" "PStr ''cat''"]
    fallback_fields [of "''The object was not found''" "PStr ''cat''"]
  show ?thesis by blast
qed

text \<open>
  C6, as the code has it. Validation replaces additional_objects by the empty list
  when the field is missing or its value is not a list, and returns a list value as
  it came, whatever its elements are; the field is never absent from the result.
\<close>

theorem validate_additional_objects:
  "dict_get (validate_result r) ''additional_objects'' PNone =
     (case map_of r ''additional_objects'' of
        Some (PList xs) \<Rightarrow> PList xs
      | _ \<Rightarrow> PList []) \<and>
   map_of (validate_result r) ''additional_objects'' \<noteq> None \<and>
   (map_of r ''additional_objects'' = None \<longrightarrow>
    dict_get (validate_result r) ''additional_objects'' PNone = PList [])"
  by (simp add: validate_result_def Let_def dict_get_def valid_confidences_def
           split: option.splits pyval.splits)

theorem validate_additional_objects_witness:
  "map_of [(''found'', PBool True)] ''additional_objects'' = None \<and>
   dict_get (validate_result [(''found'', PBool True)]) ''additional_objects'' PNone = PList [] \<and>
   dict_get (validate_result [(''additional_objects'', PStr ''chair'')])
     ''additional_objects'' PNone = PList []"
proof -
  have h: "map_of [(''found'', PBool True)] ''additional_objects'' = None" by simp
  from h validate_additional_objects [of "[(''found'', PBool True)]"]
    validate_additional_objects [of "[(''additional_objects'', PStr ''chair'')]"]
  show ?thesis by simp
qed

text \<open>
  C6 as stated fails: a list holding a number passes validation unchanged, so a
  validated result can carry a non-string element in additional_objects.
\<close>

theorem validate_keeps_non_string_elements:
  "dict_get (validate_result [(''additional_objects'', PList [PInt 1])])
     ''additional_objects'' PNone = PList [PInt 1]"
  by (simp add: validate_result_def Let_def dict_get_def valid_confidences_def)

text \<open>
  C7. Validation is idempotent: validating a validated result changes nothing.
\<close>

theorem validate_result_idempotent:
  "validate_result (validate_result r) = validate_result r"
proof -
  obtain b c d l a where
    "validate_result r = [(''found'', PBool b), (''confidence'', c), (''description'', d),
      (''location'', l), (''additional_objects'', PList a)]" "c \<in> set valid_confidences"
    using validate_shape by blast
  then show ?thesis using validate_fixed by simp
qed

theorem validate_result_idempotent_witness:
  "validate_result (validate_result [(''confidence'', PInt 7), (''found'', PStr ''x'')]) =
   validate_result [(''confidence'', PInt 7), (''found'', PStr ''x'')]"
  by (rule validate_result_idempotent)

text \<open>
  C10. The fallback result does not depend on the object name.
\<close>

theorem fallback_ignores_object_name:
  "create_fallback_result text n1 = create_fallback_result text n2"
  by (simp add: create_fallback_result_def)

theorem fallback_ignores_object_name_witness:
  "create_fallback_result ''Yes, it is visible'' (PStr ''cat'') =
   create_fallback_result ''Yes, it is visible'' (PStr ''dog'')"
  by (rule fallback_ignores_object_name)

section \<open>The claims about the span, the image string and the endpoint\<close>

text \<open>
  C1, as the code has it. Where the reply is prose, an opening brace, a body, a
  closing brace and prose again, with no opening brace in the prose before and no
  closing brace in the prose after, the span found runs from that first opening brace
  to that last closing brace, and what the JSON parser returns for exactly this span is
  the parsed result. The span ends at the last closing brace of the whole reply, not at
  the brace that matches the first opening one.
\<close>

theorem re_search_first_to_last_brace:
  assumes "CHR ''{'' \<notin> set pre" and "CHR ''}'' \<notin> set post"
    and "loads (CHR ''{'' # body @ [CHR ''}'']) = Inr result"
  shows "re_search (pre @ CHR ''{'' # body @ CHR ''}'' # post) =
           Some (CHR ''{'' # body @ [CHR ''}'']) \<and>
         parse_reply loads (pre @ CHR ''{'' # body @ CHR ''}'' # post) object_name =
           Inr result"
  using assms by (simp add: parse_reply_def re_search_first_last)

theorem re_search_first_to_last_brace_witness:
  "CHR ''{'' \<notin> set ''I think '' \<and> CHR ''}'' \<notin> set '' holds.'' \<and>
   sample_loads ''{\"found\": true}'' = Inr (PDict [(''found'', PBool True)]) \<and>
   re_search ''I think {\"found\": true} holds.'' = Some ''{\"found\": true}'' \<and>
   parse_reply sample_loads ''I think {\"found\": true} holds.'' (PStr ''cup'') =
     Inr (PDict [(''found'', PBool True)])"
proof -
  have a: "CHR ''{'' \<notin> set ''I think ''" by simp
  have b: "CHR ''}'' \<notin> set '' holds.''" by simp
  have c: "sample_loads (CHR ''{'' # ''\"found\": true'' @ [CHR ''}'']) =
             Inr (PDict [(''found'', PBool True)])"
    by (simp add: sample_loads_def)
  from re_search_first_to_last_brace
    [of "''I think ''" "'' holds.''" sample_loads "''\"found\": true''"
        "PDict [(''found'', PBool True)]" "PStr ''cup''"] a b c
  show ?thesis by simp
qed

text \<open>
  C1 as stated fails: with a closing brace in the prose after the object, the span
  found is not the balanced span of the first opening brace but runs on to the last
  closing brace of the reply.
\<close>

theorem greedy_span_is_not_balanced_span:
  "re_search ''I think {\"found\": true} holds (see {x})'' =
     Some ''{\"found\": true} holds (see {x}'' \<and>
   spec_balanced_span ''I think {\"found\": true} holds (see {x})'' =
     Some ''{\"found\": true}''"
  by (simp add: spec_balanced_span_def)

text \<open>
  C5, as the code has it. Of an image string that contains a comma, the text between
  the first comma and the second is kept and handed to the base64 decoder; this is the
  whole remainder behind the first comma when the string has no second comma. A
  request whose image is a prefix, a comma and a non-empty payload without comma is
  therefore answered exactly as the request with the bare payload, as
  "data:image/png;base64,AAAA" and "AAAA" are.
\<close>

theorem strip_data_url_second_segment:
  assumes "CHR '','' \<in> set s"
  shows "strip_data_url (PStr s) =
           Inr (PStr (takeWhile (\<lambda>c. c \<noteq> CHR '','') (spec_remainder s))) \<and>
         (CHR '','' \<notin> set (spec_remainder s) \<longrightarrow>
            strip_data_url (PStr s) = Inr (PStr (spec_remainder s)) \<and>
            (spec_remainder s \<noteq> [] \<longrightarrow>
               analyze_image ext (Inr (PDict [(''image'', PStr s), (''object_name'', n)])) =
               analyze_image ext
                 (Inr (PDict [(''image'', PStr (spec_remainder s)), (''object_name'', n)]))))"
proof -
  have seg: "strip_data_url (PStr s) =
      Inr (PStr (takeWhile (\<lambda>c. c \<noteq> CHR '','') (spec_remainder s)))"
    using assms by (simp add: strip_data_url_str)
  have s_ne: "s \<noteq> []" using assms by auto
  {
    assume nc: "CHR '','' \<notin> set (spec_remainder s)"
    have whole: "strip_data_url (PStr s) = Inr (PStr (spec_remainder s))"
      using seg nc by (simp add: takeWhile_no_comma)
    have bare: "strip_data_url (PStr (spec_remainder s)) = Inr (PStr (spec_remainder s))"
      using nc by (simp add: strip_data_url_str)
    have "spec_remainder s \<noteq> [] \<longrightarrow>
        analyze_image ext (Inr (PDict [(''image'', PStr s), (''object_name'', n)])) =
        analyze_image ext
          (Inr (PDict [(''image'', PStr (spec_remainder s)), (''object_name'', n)]))"
      using whole bare s_ne by (simp add: analyze_image_def py_get_def dict_get_def)
    with whole have "strip_data_url (PStr s) = Inr (PStr (spec_remainder s)) \<and>
        (spec_remainder s \<noteq> [] \<longrightarrow>
        analyze_image ext (Inr (PDict [(''image'', PStr s), (''object_name'', n)])) =
        analyze_image ext
          (Inr (PDict [(''image'', PStr (spec_remainder s)), (''object_name'', n)])))"
      by blast
  }
  with seg show ?thesis by blast
qed

theorem strip_data_url_second_segment_witness:
  "CHR '','' \<in> set ''data:image/png;base64,AAAA'' \<and>
   spec_remainder ''data:image/png;base64,AAAA'' = ''AAAA'' \<and>
   strip_data_url (PStr ''data:image/png;base64,AAAA'') = Inr (PStr ''AAAA'') \<and>
   analyze_image sample_externals
     (Inr (PDict [(''image'', PStr ''data:image/png;base64,AAAA''),
                  (''object_name'', PStr ''cat'')])) =
   analyze_image sample_externals
     (Inr (PDict [(''image'', PStr ''AAAA''), (''object_name'', PStr ''cat'')]))"
proof -
  have a: "CHR '','' \<in> set ''data:image/png;base64,AAAA''" by simp
  have r: "spec_remainder ''data:image/png;base64,AAAA'' = ''AAAA''"
    by (simp add: spec_remainder_def)
  have b: "CHR '','' \<notin> set (spec_remainder ''data:image/png;base64,AAAA'')"
    by (simp add: r)
  have c: "spec_remainder ''data:image/png;base64,AAAA'' \<noteq> []"
    by (simp add: r)
  from strip_data_url_second_segment [OF a, of sample_externals "PStr ''cat''"] b c
  have "strip_data_url (PStr ''data:image/png;base64,AAAA'') =
          Inr (PStr (spec_remainder ''data:image/png;base64,AAAA'')) \<and>
        analyze_image sample_externals
          (Inr (PDict [(''image'', PStr ''data:image/png;base64,AAAA''),
                       (''object_name'', PStr ''cat'')])) =
        analyze_image sample_externals
          (Inr (PDict [(''image'', PStr (spec_remainder ''data:image/png;base64,AAAA'')),
                       (''object_name'', PStr ''cat'')]))"
    by blast
  with a r show ?thesis by simp
qed

text \<open>
  C5 as stated fails: of a string with two commas only the text between them is
  decoded, not the whole remainder behind the first comma.
\<close>

theorem strip_drops_text_behind_second_comma:
  "strip_data_url (PStr ''data:image/png;base64,AAAA,BBBB'') = Inr (PStr ''AAAA'') \<and>
   spec_remainder ''data:image/png;base64,AAAA,BBBB'' = ''AAAA,BBBB''"
  by (simp add: strip_data_url_def py_index_def spec_remainder_def)




text \<open>
  C9 fails on the code. An image value that is a number has no comma test, and a
  list holding a comma has no \<open>split\<close>: the exception is raised at lines 63 and 64,
  before the two inner handlers, and the outer handler answers 500, where the claim
  has 400. A list without a comma reaches the decoder inside the first inner handler
  and is answered 400.
\<close>

theorem non_string_image_gives_500:
  "analyze_image ext (Inr (PDict [(''image'', PInt 5), (''object_name'', PStr ''cat'')])) =
     Error500 TypeError \<and>
   status (analyze_image ext
     (Inr (PDict [(''image'', PInt 5), (''object_name'', PStr ''cat'')]))) = 500 \<and>
   analyze_image ext
     (Inr (PDict [(''image'', PList [PStr '','']), (''object_name'', PStr ''cat'')])) =
     Error500 AttributeError \<and>
   analyze_image ext
     (Inr (PDict [(''image'', PList [PStr ''a'']), (''object_name'', PStr ''cat'')])) =
     Error400 ''Invalid base64 image data''"
  by (simp add: analyze_image_def py_get_def dict_get_def strip_data_url_def decode_b64_def)

theorem non_string_image_gives_500_witness:
  "status (analyze_image sample_externals
     (Inr (PDict [(''image'', PInt 5), (''object_name'', PStr ''cat'')]))) = 500 \<and>
   \<not> success (analyze_image sample_externals
     (Inr (PDict [(''image'', PInt 5), (''object_name'', PStr ''cat'')])))"
  using non_string_image_gives_500 [of sample_externals] by simp

end
